theory Spec2Isabelle
  imports Main "HOL-Library.Word"
begin

section \<open>The G1 heap evaluation task\<close>

text \<open>
  A shallow embedding of \<^verbatim>\<open>G1HeapEvaluationTask\<close>
  (\<^verbatim>\<open>src/hotspot/share/gc/g1/g1HeapEvaluationTask.cpp\<close>): the constructor and the
  body of \<^verbatim>\<open>execute()\<close>. The heap, the sizing policy and the service thread are
  collaborators of the task whose code lives elsewhere; they are parameters of the model, and
  every call the task makes to one of them is written to a call record, in program order.
\<close>

subsection \<open>Data\<close>

text \<open>
  \<^verbatim>\<open>size_t\<close> on a 64-bit platform. The declaration of the interval flag is not part of
  these sources; it is taken to be a 64-bit value as well, and \<^verbatim>\<open>schedule\<close> receives
  its 64 bits as they are.
\<close>

type_synonym size_t = "64 word"
type_synonym uintx = "64 word"

text \<open>
  The task object, as the constructor's initialiser list builds it: the name handed to the
  \<^verbatim>\<open>G1ServiceTask\<close> base, and the two pointers \<^verbatim>\<open>_g1h\<close> and
  \<^verbatim>\<open>_heap_sizing_policy\<close>. The pointers are values of the abstract reference types
  \<open>'g\<close> and \<open>'p\<close>.
\<close>

record ('g, 'p) heap_evaluation_task =
  name :: string
  g1h :: 'g
  heap_sizing_policy :: 'p

definition G1HeapEvaluationTask :: "'g \<Rightarrow> 'p \<Rightarrow> ('g, 'p) heap_evaluation_task" where
  "G1HeapEvaluationTask g1h_arg heap_sizing_policy_arg =
     \<lparr>name = ''G1 Heap Evaluation Task'',
      g1h = g1h_arg,
      heap_sizing_policy = heap_sizing_policy_arg\<rparr>"

text \<open>
  What a callee of the task can reach: the two VM flags \<^verbatim>\<open>execute()\<close> reads
  (global variables, so a callee may write them), the allocation top of the current thread's
  resource area, and the memory \<open>'m\<close> that holds the heap and the policy objects.
\<close>

record 'm vm =
  G1UseTimeBasedHeapSizing :: bool
  G1TimeBasedEvaluationIntervalMillis :: uintx
  resource_area :: nat
  memory :: 'm

text \<open>
  The calls \<^verbatim>\<open>execute()\<close> makes, with their arguments; \<open>'w\<close> is the worker set. The
  argument of \<open>EvaluateHeapResize\<close> is the value the referenced \<^verbatim>\<open>bool\<close> holds when the
  policy is entered.
\<close>

datatype 'w call =
    LogDebug string "size_t list"
  | EvaluateHeapResize bool
  | Expand size_t 'w
  | RequestHeapShrink size_t
  | Schedule uintx

text \<open>The state one invocation runs on: the task object, the VM, and the calls made so far.\<close>

record ('g, 'p, 'w, 'm) machine =
  task :: "('g, 'p) heap_evaluation_task"
  globals :: "'m vm"
  calls :: "'w call list"

subsection \<open>Collaborators\<close>

text \<open>
  The functions \<^verbatim>\<open>execute()\<close> calls on the policy and on the heap. Each takes the
  receiver and the VM state and returns the new VM state.
  \<^item> \<open>evaluate_heap_resize\<close> has a \<^verbatim>\<open>bool&\<close> parameter: the model passes the value the
    variable holds at the call and gets back the value it holds afterwards, next to the
    returned \<^verbatim>\<open>size_t\<close>.
  \<^item> \<open>expand\<close> reports success or failure as a \<^verbatim>\<open>bool\<close>.
  \<^item> \<open>workers\<close> is a getter.
\<close>

record ('g, 'p, 'w, 'm) collaborators =
  evaluate_heap_resize :: "'p \<Rightarrow> bool \<Rightarrow> 'm vm \<Rightarrow> size_t \<times> bool \<times> 'm vm"
  expand :: "'g \<Rightarrow> size_t \<Rightarrow> 'w \<Rightarrow> 'm vm \<Rightarrow> bool \<times> 'm vm"
  workers :: "'g \<Rightarrow> 'm vm \<Rightarrow> 'w"
  request_heap_shrink :: "'g \<Rightarrow> size_t \<Rightarrow> 'm vm \<Rightarrow> 'm vm"

text \<open>\<^verbatim>\<open>log_debug(gc, sizing)(fmt, args...)\<close>: the record of a log line, nothing else.\<close>

definition log_debug ::
  "string \<Rightarrow> size_t list \<Rightarrow> ('g, 'p, 'w, 'm) machine \<Rightarrow> ('g, 'p, 'w, 'm) machine" where
  "log_debug fmt args m = m\<lparr>calls := calls m @ [LogDebug fmt args]\<rparr>"

text \<open>
  Modelled from the spec: \<^verbatim>\<open>G1ServiceTask::schedule\<close>, the re-arm primitive of the
  Task Scheduler, is not part of these sources. The model records the call and the interval
  it is given.
\<close>

definition schedule ::
  "uintx \<Rightarrow> ('g, 'p, 'w, 'm) machine \<Rightarrow> ('g, 'p, 'w, 'm) machine" where
  "schedule delay_ms m = m\<lparr>calls := calls m @ [Schedule delay_ms]\<rparr>"

text \<open>
  Modelled from the spec: \<^verbatim>\<open>ResourceMark\<close> (\<^verbatim>\<open>memory/resourceArea.hpp\<close>) is not part
  of these sources. It is the scoped temporary-resource region of the spec: constructing the
  mark remembers the allocation top of the resource area, and its destructor, run when the
  scope of the mark is left, puts the top back there, which releases whatever was allocated
  in between.
\<close>

definition ResourceMark_ctor :: "('g, 'p, 'w, 'm) machine \<Rightarrow> nat" where
  "ResourceMark_ctor m = resource_area (globals m)"

definition ResourceMark_dtor ::
  "nat \<Rightarrow> ('g, 'p, 'w, 'm) machine \<Rightarrow> ('g, 'p, 'w, 'm) machine" where
  "ResourceMark_dtor saved_top m = m\<lparr>globals := (globals m)\<lparr>resource_area := saved_top\<rparr>\<rparr>"

text \<open>
  \<^verbatim>\<open>_heap_sizing_policy->evaluate_heap_resize(should_expand)\<close>: the call is recorded, the
  policy runs on the VM, and the amount and the new value of the flag come back.
\<close>

definition call_evaluate_heap_resize ::
  "('g, 'p, 'w, 'm) collaborators \<Rightarrow> bool \<Rightarrow> ('g, 'p, 'w, 'm) machine \<Rightarrow>
     size_t \<times> bool \<times> ('g, 'p, 'w, 'm) machine" where
  "call_evaluate_heap_resize c should_expand m =
     (case evaluate_heap_resize c (heap_sizing_policy (task m)) should_expand (globals m) of
        (amount, should_expand', vm') \<Rightarrow>
          (amount, should_expand', m\<lparr>globals := vm', calls := calls m @ [EvaluateHeapResize should_expand]\<rparr>))"

text \<open>
  \<^verbatim>\<open>_g1h->expand(resize_amount, _g1h->workers())\<close>: the argument \<^verbatim>\<open>_g1h->workers()\<close>
  is evaluated first; the \<^verbatim>\<open>bool\<close> that \<^verbatim>\<open>expand\<close> returns is dropped.
\<close>

definition call_expand ::
  "('g, 'p, 'w, 'm) collaborators \<Rightarrow> size_t \<Rightarrow> ('g, 'p, 'w, 'm) machine \<Rightarrow>
     ('g, 'p, 'w, 'm) machine" where
  "call_expand c resize_amount m =
     (let w = workers c (g1h (task m)) (globals m)
      in case expand c (g1h (task m)) resize_amount w (globals m) of
           (ok, vm') \<Rightarrow> m\<lparr>globals := vm', calls := calls m @ [Expand resize_amount w]\<rparr>)"

text \<open>\<^verbatim>\<open>_g1h->request_heap_shrink(resize_amount)\<close>.\<close>

definition call_request_heap_shrink ::
  "('g, 'p, 'w, 'm) collaborators \<Rightarrow> size_t \<Rightarrow> ('g, 'p, 'w, 'm) machine \<Rightarrow>
     ('g, 'p, 'w, 'm) machine" where
  "call_request_heap_shrink c resize_amount m =
     m\<lparr>globals := request_heap_shrink c (g1h (task m)) resize_amount (globals m),
       calls := calls m @ [RequestHeapShrink resize_amount]\<rparr>"

subsection \<open>\<^verbatim>\<open>G1HeapEvaluationTask::execute\<close>\<close>

text \<open>
  The body of \<^verbatim>\<open>execute()\<close>, statement by statement. The early return leaves before the
  \<^verbatim>\<open>ResourceMark\<close> is constructed; on the other path the destructor of \<^verbatim>\<open>rm\<close> runs
  last, after \<^verbatim>\<open>schedule\<close> has returned.
\<close>

definition execute ::
  "('g, 'p, 'w, 'm) collaborators \<Rightarrow> ('g, 'p, 'w, 'm) machine \<Rightarrow> ('g, 'p, 'w, 'm) machine" where
  "execute c m0 =
     (let m1 = log_debug ''Starting heap evaluation'' [] m0 in
      if \<not> G1UseTimeBasedHeapSizing (globals m1) then m1
      else
        let rm = ResourceMark_ctor m1;
            should_expand = False
        in case call_evaluate_heap_resize c should_expand m1 of
             (resize_amount, should_expand, m2) \<Rightarrow>
               let m3 =
                     (if 0 < resize_amount then
                        (if should_expand then
                           call_expand c resize_amount
                             (log_debug ''Expanding heap by %zu bytes'' [resize_amount] m2)
                         else
                           call_request_heap_shrink c resize_amount
                             (log_debug ''Shrinking heap by %zu bytes'' [resize_amount] m2))
                      else m2);
                   m4 = schedule (G1TimeBasedEvaluationIntervalMillis (globals m3)) m3
               in ResourceMark_dtor rm m4)"

subsection \<open>Reading the call record\<close>

text \<open>The calls made by one invocation: what \<^verbatim>\<open>execute()\<close> appended to the record.\<close>

definition cycle_calls ::
  "('g, 'p, 'w, 'm) collaborators \<Rightarrow> ('g, 'p, 'w, 'm) machine \<Rightarrow> 'w call list" where
  "cycle_calls c m = drop (length (calls m)) (calls (execute c m))"

fun policy_calls :: "'w call list \<Rightarrow> bool list" where
  "policy_calls [] = []"
| "policy_calls (EvaluateHeapResize b # cs) = b # policy_calls cs"
| "policy_calls (_ # cs) = policy_calls cs"

fun expand_calls :: "'w call list \<Rightarrow> (size_t \<times> 'w) list" where
  "expand_calls [] = []"
| "expand_calls (Expand n w # cs) = (n, w) # expand_calls cs"
| "expand_calls (_ # cs) = expand_calls cs"

fun shrink_requests :: "'w call list \<Rightarrow> size_t list" where
  "shrink_requests [] = []"
| "shrink_requests (RequestHeapShrink n # cs) = n # shrink_requests cs"
| "shrink_requests (_ # cs) = shrink_requests cs"

fun schedule_calls :: "'w call list \<Rightarrow> uintx list" where
  "schedule_calls [] = []"
| "schedule_calls (Schedule d # cs) = d # schedule_calls cs"
| "schedule_calls (_ # cs) = schedule_calls cs"

subsection \<open>A test double\<close>

text \<open>
  Collaborators over a heap that is nothing but its committed size; the heap is referenced as
  1 and the policy as 2. The policy answers a fixed
  amount, computes the direction flag from the value it is handed, and leaves 16 bytes in the
  resource area; \<open>expand\<close> leaves 8 bytes there, answers \<open>ok\<close> and commits only then;
  there are four workers.
\<close>

definition fake_collaborators ::
  "size_t \<Rightarrow> (bool \<Rightarrow> bool) \<Rightarrow> bool \<Rightarrow> (nat, nat, nat, nat) collaborators" where
  "fake_collaborators amount direction ok =
     \<lparr>evaluate_heap_resize =
        (\<lambda>p should_expand s.
           (amount, direction should_expand, s\<lparr>resource_area := resource_area s + 16\<rparr>)),
      expand =
        (\<lambda>g n w s.
           (ok, s\<lparr>resource_area := resource_area s + 8,
                  memory := (if ok then memory s + unat n else memory s)\<rparr>)),
      workers = (\<lambda>g s. 4),
      request_heap_shrink = (\<lambda>g n s. s\<lparr>memory := memory s - unat n\<rparr>)\<rparr>"

definition fake_machine :: "bool \<Rightarrow> uintx \<Rightarrow> (nat, nat, nat, nat) machine" where
  "fake_machine enabled interval =
     \<lparr>task = G1HeapEvaluationTask 1 2,
      globals = \<lparr>G1UseTimeBasedHeapSizing = enabled,
                 G1TimeBasedEvaluationIntervalMillis = interval,
                 resource_area = 0,
                 memory = 1024\<rparr>,
      calls = []\<rparr>"

text \<open>
  The collaborators leave the interval flag alone: none of their calls changes
  \<^verbatim>\<open>G1TimeBasedEvaluationIntervalMillis\<close>.
\<close>

definition keeps_interval :: "('g, 'p, 'w, 'm) collaborators \<Rightarrow> bool" where
  "keeps_interval c \<longleftrightarrow>
     (\<forall>p b s. G1TimeBasedEvaluationIntervalMillis (snd (snd (evaluate_heap_resize c p b s)))
                = G1TimeBasedEvaluationIntervalMillis s) \<and>
     (\<forall>g n w s. G1TimeBasedEvaluationIntervalMillis (snd (expand c g n w s))
                = G1TimeBasedEvaluationIntervalMillis s) \<and>
     (\<forall>g n s. G1TimeBasedEvaluationIntervalMillis (request_heap_shrink c g n s)
                = G1TimeBasedEvaluationIntervalMillis s)"

section \<open>The four paths through \<^verbatim>\<open>execute()\<close>\<close>

lemma execute_disabled:
  assumes "\<not> G1UseTimeBasedHeapSizing (globals m)"
  shows "execute c m = m\<lparr>calls := calls m @ [LogDebug ''Starting heap evaluation'' []]\<rparr>"
  using assms by (simp add: execute_def log_debug_def)

lemma execute_grow:
  assumes "G1UseTimeBasedHeapSizing (globals m)"
    and "evaluate_heap_resize c (heap_sizing_policy (task m)) False (globals m) = (n, True, vm1)"
    and "0 < n"
    and "expand c (g1h (task m)) n (workers c (g1h (task m)) vm1) vm1 = (ok, vm2)"
  shows "execute c m =
           m\<lparr>globals := vm2\<lparr>resource_area := resource_area (globals m)\<rparr>,
             calls := calls m @
               [LogDebug ''Starting heap evaluation'' [],
                EvaluateHeapResize False,
                LogDebug ''Expanding heap by %zu bytes'' [n],
                Expand n (workers c (g1h (task m)) vm1),
                Schedule (G1TimeBasedEvaluationIntervalMillis vm2)]\<rparr>"
  using assms
  by (simp add: execute_def log_debug_def ResourceMark_ctor_def ResourceMark_dtor_def
      call_evaluate_heap_resize_def call_expand_def schedule_def)

lemma execute_shrink:
  assumes "G1UseTimeBasedHeapSizing (globals m)"
    and "evaluate_heap_resize c (heap_sizing_policy (task m)) False (globals m) = (n, False, vm1)"
    and "0 < n"
  shows "execute c m =
           m\<lparr>globals := (request_heap_shrink c (g1h (task m)) n vm1)
                          \<lparr>resource_area := resource_area (globals m)\<rparr>,
             calls := calls m @
               [LogDebug ''Starting heap evaluation'' [],
                EvaluateHeapResize False,
                LogDebug ''Shrinking heap by %zu bytes'' [n],
                RequestHeapShrink n,
                Schedule (G1TimeBasedEvaluationIntervalMillis
                            (request_heap_shrink c (g1h (task m)) n vm1))]\<rparr>"
  using assms
  by (simp add: execute_def log_debug_def ResourceMark_ctor_def ResourceMark_dtor_def
      call_evaluate_heap_resize_def call_request_heap_shrink_def schedule_def)

lemma execute_no_action:
  assumes "G1UseTimeBasedHeapSizing (globals m)"
    and "evaluate_heap_resize c (heap_sizing_policy (task m)) False (globals m) = (0, d, vm1)"
  shows "execute c m =
           m\<lparr>globals := vm1\<lparr>resource_area := resource_area (globals m)\<rparr>,
             calls := calls m @
               [LogDebug ''Starting heap evaluation'' [],
                EvaluateHeapResize False,
                Schedule (G1TimeBasedEvaluationIntervalMillis vm1)]\<rparr>"
  using assms
  by (simp add: execute_def log_debug_def ResourceMark_ctor_def ResourceMark_dtor_def
      call_evaluate_heap_resize_def schedule_def)

text \<open>Every invocation takes one of the four paths.\<close>

lemma execute_paths:
  obtains
    (disabled) "\<not> G1UseTimeBasedHeapSizing (globals m)"
  | (no_action) d vm1 where "G1UseTimeBasedHeapSizing (globals m)"
      and "evaluate_heap_resize c (heap_sizing_policy (task m)) False (globals m) = (0, d, vm1)"
  | (grow) n vm1 ok vm2 where "G1UseTimeBasedHeapSizing (globals m)"
      and "evaluate_heap_resize c (heap_sizing_policy (task m)) False (globals m) = (n, True, vm1)"
      and "0 < n"
      and "expand c (g1h (task m)) n (workers c (g1h (task m)) vm1) vm1 = (ok, vm2)"
  | (shrink) n vm1 where "G1UseTimeBasedHeapSizing (globals m)"
      and "evaluate_heap_resize c (heap_sizing_policy (task m)) False (globals m) = (n, False, vm1)"
      and "0 < n"
proof (cases "G1UseTimeBasedHeapSizing (globals m)")
  case False
  then show ?thesis by (rule disabled)
next
  case True
  obtain n d vm1 where
    ev: "evaluate_heap_resize c (heap_sizing_policy (task m)) False (globals m) = (n, d, vm1)"
    by (cases "evaluate_heap_resize c (heap_sizing_policy (task m)) False (globals m)")
  show ?thesis
  proof (cases "n = 0")
    case True
    with \<open>G1UseTimeBasedHeapSizing (globals m)\<close> ev show ?thesis
      by (auto intro: no_action)
  next
    case False
    then have pos: "0 < n" by (simp add: word_gt_0)
    show ?thesis
    proof (cases d)
      case True
      obtain ok vm2 where
        "expand c (g1h (task m)) n (workers c (g1h (task m)) vm1) vm1 = (ok, vm2)"
        by (cases "expand c (g1h (task m)) n (workers c (g1h (task m)) vm1) vm1")
      with \<open>G1UseTimeBasedHeapSizing (globals m)\<close> ev pos True show ?thesis
        by (auto intro: grow)
    next
      case False
      with \<open>G1UseTimeBasedHeapSizing (globals m)\<close> ev pos show ?thesis
        by (auto intro: shrink)
    qed
  qed
qed

lemma cycle_calls_disabled:
  assumes "\<not> G1UseTimeBasedHeapSizing (globals m)"
  shows "cycle_calls c m = [LogDebug ''Starting heap evaluation'' []]"
  by (simp add: cycle_calls_def execute_disabled [OF assms])

lemma cycle_calls_grow:
  assumes "G1UseTimeBasedHeapSizing (globals m)"
    and "evaluate_heap_resize c (heap_sizing_policy (task m)) False (globals m) = (n, True, vm1)"
    and "0 < n"
    and "expand c (g1h (task m)) n (workers c (g1h (task m)) vm1) vm1 = (ok, vm2)"
  shows "cycle_calls c m =
           [LogDebug ''Starting heap evaluation'' [],
            EvaluateHeapResize False,
            LogDebug ''Expanding heap by %zu bytes'' [n],
            Expand n (workers c (g1h (task m)) vm1),
            Schedule (G1TimeBasedEvaluationIntervalMillis vm2)]"
  by (simp add: cycle_calls_def execute_grow [OF assms])

lemma cycle_calls_shrink:
  assumes "G1UseTimeBasedHeapSizing (globals m)"
    and "evaluate_heap_resize c (heap_sizing_policy (task m)) False (globals m) = (n, False, vm1)"
    and "0 < n"
  shows "cycle_calls c m =
           [LogDebug ''Starting heap evaluation'' [],
            EvaluateHeapResize False,
            LogDebug ''Shrinking heap by %zu bytes'' [n],
            RequestHeapShrink n,
            Schedule (G1TimeBasedEvaluationIntervalMillis
                        (request_heap_shrink c (g1h (task m)) n vm1))]"
  by (simp add: cycle_calls_def execute_shrink [OF assms])

lemma cycle_calls_no_action:
  assumes "G1UseTimeBasedHeapSizing (globals m)"
    and "evaluate_heap_resize c (heap_sizing_policy (task m)) False (globals m) = (0, d, vm1)"
  shows "cycle_calls c m =
           [LogDebug ''Starting heap evaluation'' [],
            EvaluateHeapResize False,
            Schedule (G1TimeBasedEvaluationIntervalMillis vm1)]"
  by (simp add: cycle_calls_def execute_no_action [OF assms])

section \<open>The disabled flag\<close>

text \<open>
  C1 (as amended). For every invocation of \<^verbatim>\<open>execute()\<close> in which the flag
  \<^verbatim>\<open>G1UseTimeBasedHeapSizing\<close> is off, the cycle performs no heap action, neither an
  expand call nor a shrink request, and it makes no call to \<^verbatim>\<open>schedule\<close>: the guard
  returns before the re-arm at the end of the body, so this invocation does not re-arm the
  task.
\<close>

theorem disabled_cycle_no_heap_action_no_schedule:
  assumes "\<not> G1UseTimeBasedHeapSizing (globals m)"
  shows "expand_calls (cycle_calls c m) = [] \<and>
         shrink_requests (cycle_calls c m) = [] \<and>
         schedule_calls (cycle_calls c m) = []"
  by (simp add: cycle_calls_disabled [OF assms])

theorem disabled_cycle_no_heap_action_no_schedule_witness:
  "\<not> G1UseTimeBasedHeapSizing (globals (fake_machine False 60000)) \<and>
   expand_calls (cycle_calls (fake_collaborators 4096 (\<lambda>b. True) True)
                   (fake_machine False 60000)) = [] \<and>
   shrink_requests (cycle_calls (fake_collaborators 4096 (\<lambda>b. True) True)
                      (fake_machine False 60000)) = [] \<and>
   schedule_calls (cycle_calls (fake_collaborators 4096 (\<lambda>b. True) True)
                     (fake_machine False 60000)) = []"
proof -
  have off: "\<not> G1UseTimeBasedHeapSizing (globals (fake_machine False 60000))"
    by (simp add: fake_machine_def)
  from off disabled_cycle_no_heap_action_no_schedule [OF off] show ?thesis
    by simp
qed

text \<open>
  C1 as the spec states it asks for exactly one call to \<^verbatim>\<open>schedule\<close> on this path. With
  the flag off and an interval of 60000 ms configured, the invocation makes none.
\<close>

theorem disabled_cycle_reschedules_counterexample:
  "G1UseTimeBasedHeapSizing (globals (fake_machine False 60000)) = False \<and>
   schedule_calls (cycle_calls (fake_collaborators 4096 (\<lambda>b. True) True)
                     (fake_machine False 60000)) = [] \<and>
   length (schedule_calls (cycle_calls (fake_collaborators 4096 (\<lambda>b. True) True)
                             (fake_machine False 60000))) \<noteq> 1"
  by (simp add: cycle_calls_def execute_def log_debug_def fake_machine_def)

text \<open>
  C7. For every invocation of \<^verbatim>\<open>execute()\<close> in which the flag is off, the cycle makes no
  call to \<^verbatim>\<open>evaluate_heap_resize\<close>, no call to \<^verbatim>\<open>expand\<close> and no shrink request, and
  the VM state, which holds the policy and the heap with its capacity, is after the cycle what
  it was before.
\<close>

theorem disabled_cycle_touches_nothing:
  assumes "\<not> G1UseTimeBasedHeapSizing (globals m)"
  shows "policy_calls (cycle_calls c m) = [] \<and>
         expand_calls (cycle_calls c m) = [] \<and>
         shrink_requests (cycle_calls c m) = [] \<and>
         globals (execute c m) = globals m"
  by (simp add: cycle_calls_disabled [OF assms] execute_disabled [OF assms])

theorem disabled_cycle_touches_nothing_witness:
  "\<not> G1UseTimeBasedHeapSizing (globals (fake_machine False 1000)) \<and>
   policy_calls (cycle_calls (fake_collaborators 2097152 (\<lambda>b. b) True)
                   (fake_machine False 1000)) = [] \<and>
   expand_calls (cycle_calls (fake_collaborators 2097152 (\<lambda>b. b) True)
                   (fake_machine False 1000)) = [] \<and>
   shrink_requests (cycle_calls (fake_collaborators 2097152 (\<lambda>b. b) True)
                      (fake_machine False 1000)) = [] \<and>
   memory (globals (execute (fake_collaborators 2097152 (\<lambda>b. b) True)
                      (fake_machine False 1000))) = 1024"
proof -
  have off: "\<not> G1UseTimeBasedHeapSizing (globals (fake_machine False 1000))"
    by (simp add: fake_machine_def)
  have "memory (globals (fake_machine False 1000)) = 1024"
    by (simp add: fake_machine_def)
  with off disabled_cycle_touches_nothing [OF off] show ?thesis
    by simp
qed

section \<open>Applying the decision\<close>

text \<open>
  C2. For every invocation of \<^verbatim>\<open>execute()\<close> with the flag on in which the policy returns
  a positive amount with the direction flag set to grow, the cycle makes exactly one call to
  \<^verbatim>\<open>expand\<close>, with exactly that amount and the heap's worker set, no shrink request, and
  exactly one call to \<^verbatim>\<open>schedule\<close>. The call is the heap's own \<^verbatim>\<open>expand\<close>, run once on
  the VM the policy left: \<^verbatim>\<open>execute()\<close> returns with the VM that this one application of
  \<^verbatim>\<open>expand\<close> to the amount and the worker set produced (the resource area apart). Nothing is
  assumed about what \<^verbatim>\<open>expand\<close> returns, so the call to \<^verbatim>\<open>schedule\<close> is made whether
  \<^verbatim>\<open>expand\<close> succeeds or fails.
\<close>

theorem grow_expands_once_and_reschedules_once:
  assumes "G1UseTimeBasedHeapSizing (globals m)"
    and "evaluate_heap_resize c (heap_sizing_policy (task m)) False (globals m)
           = (amount, True, vm1)"
    and "0 < amount"
  shows "expand_calls (cycle_calls c m) = [(amount, workers c (g1h (task m)) vm1)] \<and>
         shrink_requests (cycle_calls c m) = [] \<and>
         length (schedule_calls (cycle_calls c m)) = 1 \<and>
         globals (execute c m)
           = (snd (expand c (g1h (task m)) amount (workers c (g1h (task m)) vm1) vm1))
               \<lparr>resource_area := resource_area (globals m)\<rparr>"
proof -
  obtain ok vm2 where
    ex: "expand c (g1h (task m)) amount (workers c (g1h (task m)) vm1) vm1 = (ok, vm2)"
    by (cases "expand c (g1h (task m)) amount (workers c (g1h (task m)) vm1) vm1")
  from cycle_calls_grow [OF assms ex] execute_grow [OF assms ex] ex show ?thesis
    by simp
qed

theorem grow_expands_once_and_reschedules_once_witness:
  "expand_calls (cycle_calls (fake_collaborators 1048576 (\<lambda>b. True) True)
                   (fake_machine True 60000)) = [(1048576, 4)] \<and>
   shrink_requests (cycle_calls (fake_collaborators 1048576 (\<lambda>b. True) True)
                      (fake_machine True 60000)) = [] \<and>
   length (schedule_calls (cycle_calls (fake_collaborators 1048576 (\<lambda>b. True) True)
                             (fake_machine True 60000))) = 1 \<and>
   memory (globals (execute (fake_collaborators 1048576 (\<lambda>b. True) True)
                      (fake_machine True 60000))) = 1049600"
proof -
  have on: "G1UseTimeBasedHeapSizing (globals (fake_machine True 60000))"
    by (simp add: fake_machine_def)
  have decision:
    "evaluate_heap_resize (fake_collaborators 1048576 (\<lambda>b. True) True)
       (heap_sizing_policy (task (fake_machine True 60000))) False
       (globals (fake_machine True 60000))
     = (1048576, True, (globals (fake_machine True 60000))\<lparr>resource_area := 16\<rparr>)"
    by (simp add: fake_collaborators_def fake_machine_def)
  have positive: "(0 :: size_t) < 1048576"
    by simp
  from grow_expands_once_and_reschedules_once [OF on decision positive] show ?thesis
    by (simp add: fake_collaborators_def fake_machine_def)
qed

text \<open>
  C3. For every invocation of \<^verbatim>\<open>execute()\<close> with the flag on in which the policy returns
  a positive amount with the direction flag left at shrink, the cycle issues exactly one
  shrink request, with exactly that amount, makes no call to \<^verbatim>\<open>expand\<close>, and makes exactly
  one call to \<^verbatim>\<open>schedule\<close>. The request is the heap's own \<^verbatim>\<open>request_heap_shrink\<close>, run
  once on the VM the policy left: \<^verbatim>\<open>execute()\<close> returns with the VM that this one
  application of \<^verbatim>\<open>request_heap_shrink\<close> to the amount produced (the resource area apart).
\<close>

theorem shrink_requests_once_and_reschedules_once:
  assumes "G1UseTimeBasedHeapSizing (globals m)"
    and "evaluate_heap_resize c (heap_sizing_policy (task m)) False (globals m)
           = (amount, False, vm1)"
    and "0 < amount"
  shows "shrink_requests (cycle_calls c m) = [amount] \<and>
         expand_calls (cycle_calls c m) = [] \<and>
         length (schedule_calls (cycle_calls c m)) = 1 \<and>
         globals (execute c m)
           = (request_heap_shrink c (g1h (task m)) amount vm1)
               \<lparr>resource_area := resource_area (globals m)\<rparr>"
  by (simp add: cycle_calls_shrink [OF assms] execute_shrink [OF assms])

theorem shrink_requests_once_and_reschedules_once_witness:
  "shrink_requests (cycle_calls (fake_collaborators 512 (\<lambda>b. False) True)
                      (fake_machine True 60000)) = [512] \<and>
   expand_calls (cycle_calls (fake_collaborators 512 (\<lambda>b. False) True)
                   (fake_machine True 60000)) = [] \<and>
   length (schedule_calls (cycle_calls (fake_collaborators 512 (\<lambda>b. False) True)
                             (fake_machine True 60000))) = 1 \<and>
   memory (globals (execute (fake_collaborators 512 (\<lambda>b. False) True)
                      (fake_machine True 60000))) = 512"
proof -
  have on: "G1UseTimeBasedHeapSizing (globals (fake_machine True 60000))"
    by (simp add: fake_machine_def)
  have decision:
    "evaluate_heap_resize (fake_collaborators 512 (\<lambda>b. False) True)
       (heap_sizing_policy (task (fake_machine True 60000))) False
       (globals (fake_machine True 60000))
     = (512, False, (globals (fake_machine True 60000))\<lparr>resource_area := 16\<rparr>)"
    by (simp add: fake_collaborators_def fake_machine_def)
  have positive: "(0 :: size_t) < 512"
    by simp
  from shrink_requests_once_and_reschedules_once [OF on decision positive] show ?thesis
    by (simp add: fake_collaborators_def fake_machine_def)
qed

text \<open>
  C4. For every invocation of \<^verbatim>\<open>execute()\<close> with the flag on in which the policy returns
  the amount 0, whatever the direction flag \<open>d\<close> says, the cycle makes no call to
  \<^verbatim>\<open>expand\<close> and no shrink request, and still makes exactly one call to \<^verbatim>\<open>schedule\<close>.
\<close>

theorem zero_amount_no_action_and_reschedules_once:
  assumes "G1UseTimeBasedHeapSizing (globals m)"
    and "evaluate_heap_resize c (heap_sizing_policy (task m)) False (globals m) = (0, d, vm1)"
  shows "expand_calls (cycle_calls c m) = [] \<and>
         shrink_requests (cycle_calls c m) = [] \<and>
         length (schedule_calls (cycle_calls c m)) = 1"
  by (simp add: cycle_calls_no_action [OF assms])

theorem zero_amount_no_action_and_reschedules_once_witness:
  "expand_calls (cycle_calls (fake_collaborators 0 (\<lambda>b. True) True)
                   (fake_machine True 60000)) = [] \<and>
   shrink_requests (cycle_calls (fake_collaborators 0 (\<lambda>b. True) True)
                      (fake_machine True 60000)) = [] \<and>
   length (schedule_calls (cycle_calls (fake_collaborators 0 (\<lambda>b. True) True)
                             (fake_machine True 60000))) = 1"
proof -
  have on: "G1UseTimeBasedHeapSizing (globals (fake_machine True 60000))"
    by (simp add: fake_machine_def)
  have decision:
    "evaluate_heap_resize (fake_collaborators 0 (\<lambda>b. True) True)
       (heap_sizing_policy (task (fake_machine True 60000))) False
       (globals (fake_machine True 60000))
     = (0, True, (globals (fake_machine True 60000))\<lparr>resource_area := 16\<rparr>)"
    by (simp add: fake_collaborators_def fake_machine_def)
  from zero_amount_no_action_and_reschedules_once [OF on decision] show ?thesis
    by simp
qed

text \<open>
  C5. \<^verbatim>\<open>execute()\<close> hands no failure of a collaborator on to its caller: the only failure
  report there is, the \<^verbatim>\<open>bool\<close> of \<^verbatim>\<open>expand\<close>, is dropped. For every invocation with
  the flag on in which the policy asks to grow by a positive amount and \<^verbatim>\<open>expand\<close> reports
  failure, the cycle holds that one \<^verbatim>\<open>expand\<close> call and no second one, the call that follows
  it and ends the cycle is the one call to \<^verbatim>\<open>schedule\<close>, and \<^verbatim>\<open>execute()\<close> returns with
  the VM as the failed \<^verbatim>\<open>expand\<close> left it (the resource area apart).
\<close>

theorem failed_expand_not_retried_and_rescheduled:
  assumes "G1UseTimeBasedHeapSizing (globals m)"
    and "evaluate_heap_resize c (heap_sizing_policy (task m)) False (globals m)
           = (amount, True, vm1)"
    and "0 < amount"
    and "expand c (g1h (task m)) amount (workers c (g1h (task m)) vm1) vm1 = (False, vm2)"
  shows "expand_calls (cycle_calls c m) = [(amount, workers c (g1h (task m)) vm1)] \<and>
         schedule_calls (cycle_calls c m) = [G1TimeBasedEvaluationIntervalMillis vm2] \<and>
         last (cycle_calls c m) = Schedule (G1TimeBasedEvaluationIntervalMillis vm2) \<and>
         globals (execute c m) = vm2\<lparr>resource_area := resource_area (globals m)\<rparr>"
  by (simp add: cycle_calls_grow [OF assms] execute_grow [OF assms])

theorem failed_expand_not_retried_and_rescheduled_witness:
  "expand_calls (cycle_calls (fake_collaborators 1048576 (\<lambda>b. True) False)
                   (fake_machine True 60000)) = [(1048576, 4)] \<and>
   schedule_calls (cycle_calls (fake_collaborators 1048576 (\<lambda>b. True) False)
                     (fake_machine True 60000)) = [60000] \<and>
   last (cycle_calls (fake_collaborators 1048576 (\<lambda>b. True) False)
           (fake_machine True 60000)) = Schedule 60000 \<and>
   memory (globals (execute (fake_collaborators 1048576 (\<lambda>b. True) False)
                      (fake_machine True 60000))) = 1024"
proof -
  have on: "G1UseTimeBasedHeapSizing (globals (fake_machine True 60000))"
    by (simp add: fake_machine_def)
  have decision:
    "evaluate_heap_resize (fake_collaborators 1048576 (\<lambda>b. True) False)
       (heap_sizing_policy (task (fake_machine True 60000))) False
       (globals (fake_machine True 60000))
     = (1048576, True, (globals (fake_machine True 60000))\<lparr>resource_area := 16\<rparr>)"
    by (simp add: fake_collaborators_def fake_machine_def)
  have positive: "(0 :: size_t) < 1048576"
    by simp
  have failure:
    "expand (fake_collaborators 1048576 (\<lambda>b. True) False)
       (g1h (task (fake_machine True 60000))) 1048576
       (workers (fake_collaborators 1048576 (\<lambda>b. True) False)
          (g1h (task (fake_machine True 60000)))
          ((globals (fake_machine True 60000))\<lparr>resource_area := 16\<rparr>))
       ((globals (fake_machine True 60000))\<lparr>resource_area := 16\<rparr>)
     = (False, (globals (fake_machine True 60000))\<lparr>resource_area := 24\<rparr>)"
    by (simp add: fake_collaborators_def fake_machine_def)
  from failed_expand_not_retried_and_rescheduled [OF on decision positive failure]
  show ?thesis
    by (simp add: fake_collaborators_def fake_machine_def)
qed

text \<open>
  C10. \<^verbatim>\<open>should_expand\<close> holds \<^verbatim>\<open>false\<close> when it is handed to the policy. So for every
  invocation with the flag on in which the policy returns a positive amount and hands the
  referenced flag back as it received it, whatever value that is, the cycle issues a shrink
  request for that amount and makes no call to \<^verbatim>\<open>expand\<close>. The request is the heap's own
  \<^verbatim>\<open>request_heap_shrink\<close>, run once on the VM the policy left: \<^verbatim>\<open>execute()\<close> returns
  with the VM that this one application of \<^verbatim>\<open>request_heap_shrink\<close> to the amount produced
  (the resource area apart).
\<close>

theorem unassigned_direction_means_shrink:
  assumes "G1UseTimeBasedHeapSizing (globals m)"
    and "\<And>b. evaluate_heap_resize c (heap_sizing_policy (task m)) b (globals m)
               = (amount, b, vm1)"
    and "0 < amount"
  shows "policy_calls (cycle_calls c m) = [False] \<and>
         shrink_requests (cycle_calls c m) = [amount] \<and>
         expand_calls (cycle_calls c m) = [] \<and>
         globals (execute c m)
           = (request_heap_shrink c (g1h (task m)) amount vm1)
               \<lparr>resource_area := resource_area (globals m)\<rparr>"
  by (simp add: cycle_calls_shrink [OF assms(1) assms(2) [of False] assms(3)]
      execute_shrink [OF assms(1) assms(2) [of False] assms(3)])

theorem unassigned_direction_means_shrink_witness:
  "policy_calls (cycle_calls (fake_collaborators 256 (\<lambda>b. b) True)
                   (fake_machine True 60000)) = [False] \<and>
   shrink_requests (cycle_calls (fake_collaborators 256 (\<lambda>b. b) True)
                      (fake_machine True 60000)) = [256] \<and>
   expand_calls (cycle_calls (fake_collaborators 256 (\<lambda>b. b) True)
                   (fake_machine True 60000)) = [] \<and>
   memory (globals (execute (fake_collaborators 256 (\<lambda>b. b) True)
                      (fake_machine True 60000))) = 768"
proof -
  have on: "G1UseTimeBasedHeapSizing (globals (fake_machine True 60000))"
    by (simp add: fake_machine_def)
  have unassigned:
    "\<And>b. evaluate_heap_resize (fake_collaborators 256 (\<lambda>b. b) True)
            (heap_sizing_policy (task (fake_machine True 60000))) b
            (globals (fake_machine True 60000))
          = (256, b, (globals (fake_machine True 60000))\<lparr>resource_area := 16\<rparr>)"
    by (simp add: fake_collaborators_def fake_machine_def)
  have positive: "(0 :: size_t) < 256"
    by simp
  from unassigned_direction_means_shrink [OF on unassigned positive] show ?thesis
    by (simp add: fake_collaborators_def fake_machine_def)
qed

section \<open>Properties of every invocation\<close>

lemma execute_keeps_interval:
  assumes "keeps_interval c"
  shows "G1TimeBasedEvaluationIntervalMillis (globals (execute c m))
           = G1TimeBasedEvaluationIntervalMillis (globals m)"
proof (rule execute_paths [where m = m and c = c])
  assume "\<not> G1UseTimeBasedHeapSizing (globals m)"
  then show ?thesis
    by (simp add: execute_disabled)
next
  fix d vm1
  assume on: "G1UseTimeBasedHeapSizing (globals m)"
    and ev: "evaluate_heap_resize c (heap_sizing_policy (task m)) False (globals m) = (0, d, vm1)"
  from assms have "G1TimeBasedEvaluationIntervalMillis
      (snd (snd (evaluate_heap_resize c (heap_sizing_policy (task m)) False (globals m))))
    = G1TimeBasedEvaluationIntervalMillis (globals m)"
    unfolding keeps_interval_def by blast
  with ev show ?thesis
    by (simp add: execute_no_action [OF on ev])
next
  fix n vm1 ok vm2
  assume on: "G1UseTimeBasedHeapSizing (globals m)"
    and ev: "evaluate_heap_resize c (heap_sizing_policy (task m)) False (globals m)
               = (n, True, vm1)"
    and pos: "0 < n"
    and ex: "expand c (g1h (task m)) n (workers c (g1h (task m)) vm1) vm1 = (ok, vm2)"
  from assms have "G1TimeBasedEvaluationIntervalMillis
      (snd (snd (evaluate_heap_resize c (heap_sizing_policy (task m)) False (globals m))))
    = G1TimeBasedEvaluationIntervalMillis (globals m)"
    unfolding keeps_interval_def by blast
  moreover from assms have "G1TimeBasedEvaluationIntervalMillis
      (snd (expand c (g1h (task m)) n (workers c (g1h (task m)) vm1) vm1))
    = G1TimeBasedEvaluationIntervalMillis vm1"
    unfolding keeps_interval_def by blast
  ultimately show ?thesis
    using ev ex by (simp add: execute_grow [OF on ev pos ex])
next
  fix n vm1
  assume on: "G1UseTimeBasedHeapSizing (globals m)"
    and ev: "evaluate_heap_resize c (heap_sizing_policy (task m)) False (globals m)
               = (n, False, vm1)"
    and pos: "0 < n"
  from assms have "G1TimeBasedEvaluationIntervalMillis
      (snd (snd (evaluate_heap_resize c (heap_sizing_policy (task m)) False (globals m))))
    = G1TimeBasedEvaluationIntervalMillis (globals m)"
    unfolding keeps_interval_def by blast
  moreover from assms have "G1TimeBasedEvaluationIntervalMillis
      (request_heap_shrink c (g1h (task m)) n vm1)
    = G1TimeBasedEvaluationIntervalMillis vm1"
    unfolding keeps_interval_def by blast
  ultimately show ?thesis
    using ev by (simp add: execute_shrink [OF on ev pos])
qed

lemma schedule_calls_enabled:
  assumes "G1UseTimeBasedHeapSizing (globals m)"
  shows "schedule_calls (cycle_calls c m)
           = [G1TimeBasedEvaluationIntervalMillis (globals (execute c m))]"
proof (rule execute_paths [where m = m and c = c])
  assume "\<not> G1UseTimeBasedHeapSizing (globals m)"
  with assms show ?thesis
    by simp
next
  fix d vm1
  assume ev: "evaluate_heap_resize c (heap_sizing_policy (task m)) False (globals m) = (0, d, vm1)"
  show ?thesis
    by (simp add: cycle_calls_no_action [OF assms ev] execute_no_action [OF assms ev])
next
  fix n vm1 ok vm2
  assume ev: "evaluate_heap_resize c (heap_sizing_policy (task m)) False (globals m)
               = (n, True, vm1)"
    and pos: "0 < n"
    and ex: "expand c (g1h (task m)) n (workers c (g1h (task m)) vm1) vm1 = (ok, vm2)"
  show ?thesis
    by (simp add: cycle_calls_grow [OF assms ev pos ex] execute_grow [OF assms ev pos ex])
next
  fix n vm1
  assume ev: "evaluate_heap_resize c (heap_sizing_policy (task m)) False (globals m)
               = (n, False, vm1)"
    and pos: "0 < n"
  show ?thesis
    by (simp add: cycle_calls_shrink [OF assms ev pos] execute_shrink [OF assms ev pos])
qed

lemma keeps_interval_fake: "keeps_interval (fake_collaborators amount direction ok)"
  by (simp add: keeps_interval_def fake_collaborators_def)

text \<open>
  C6. For every invocation of \<^verbatim>\<open>execute()\<close> that reschedules (the flag is on), the interval
  passed to the one \<^verbatim>\<open>schedule\<close> call is the value of
  \<^verbatim>\<open>G1TimeBasedEvaluationIntervalMillis\<close> at that call, which is the value it has when
  \<^verbatim>\<open>execute()\<close> returns, since nothing after the read writes it; the task object holds no
  copy of it. So when the flag is set to a new value \<open>v\<close> before an invocation, and the
  collaborators leave the flag alone, that invocation reschedules with \<open>v\<close>.
\<close>

theorem schedule_reads_current_interval:
  assumes "G1UseTimeBasedHeapSizing (globals m)"
  shows "schedule_calls (cycle_calls c m)
           = [G1TimeBasedEvaluationIntervalMillis (globals (execute c m))] \<and>
         (keeps_interval c \<longrightarrow>
            schedule_calls
              (cycle_calls c (m\<lparr>globals := (globals m)\<lparr>G1TimeBasedEvaluationIntervalMillis := v\<rparr>\<rparr>))
            = [v])"
proof
  show "schedule_calls (cycle_calls c m)
          = [G1TimeBasedEvaluationIntervalMillis (globals (execute c m))]"
    by (rule schedule_calls_enabled [OF assms])
next
  let ?m = "m\<lparr>globals := (globals m)\<lparr>G1TimeBasedEvaluationIntervalMillis := v\<rparr>\<rparr>"
  show "keeps_interval c \<longrightarrow> schedule_calls (cycle_calls c ?m) = [v]"
  proof
    assume keeps: "keeps_interval c"
    from assms have on: "G1UseTimeBasedHeapSizing (globals ?m)"
      by simp
    have "G1TimeBasedEvaluationIntervalMillis (globals (execute c ?m)) = v"
      by (simp add: execute_keeps_interval [OF keeps])
    with schedule_calls_enabled [OF on] show "schedule_calls (cycle_calls c ?m) = [v]"
      by simp
  qed
qed

theorem schedule_reads_current_interval_witness:
  "schedule_calls (cycle_calls (fake_collaborators 4096 (\<lambda>b. True) True)
                     (fake_machine True 60000)) = [60000] \<and>
   schedule_calls (cycle_calls (fake_collaborators 4096 (\<lambda>b. True) True)
                     ((fake_machine True 60000)
                        \<lparr>globals := (globals (fake_machine True 60000))
                                      \<lparr>G1TimeBasedEvaluationIntervalMillis := 5000\<rparr>\<rparr>)) = [5000]"
proof -
  have on: "G1UseTimeBasedHeapSizing (globals (fake_machine True 60000))"
    by (simp add: fake_machine_def)
  have at_return:
    "G1TimeBasedEvaluationIntervalMillis
       (globals (execute (fake_collaborators 4096 (\<lambda>b. True) True) (fake_machine True 60000)))
     = 60000"
    by (simp add: execute_keeps_interval [OF keeps_interval_fake] fake_machine_def)
  from schedule_reads_current_interval
         [OF on, of "fake_collaborators 4096 (\<lambda>b. True) True" 5000]
       keeps_interval_fake [of 4096 "\<lambda>b. True" True] at_return
  show ?thesis
    by simp
qed

text \<open>
  C8. For every invocation of \<^verbatim>\<open>execute()\<close>, whatever its collaborators allocate in the
  resource area during the cycle, the allocation top of the resource area is, when
  \<^verbatim>\<open>execute()\<close> returns, where it was when \<^verbatim>\<open>execute()\<close> was entered. This holds on
  every exit path: the early return with the flag off (which leaves before the mark is taken),
  the path on which \<^verbatim>\<open>expand\<close> reports failure, and the normal path.
\<close>

theorem resource_area_released_on_every_path:
  "resource_area (globals (execute c m)) = resource_area (globals m)"
proof (rule execute_paths [where m = m and c = c])
  assume "\<not> G1UseTimeBasedHeapSizing (globals m)"
  then show ?thesis
    by (simp add: execute_disabled)
next
  fix d vm1
  assume "G1UseTimeBasedHeapSizing (globals m)"
    and "evaluate_heap_resize c (heap_sizing_policy (task m)) False (globals m) = (0, d, vm1)"
  then show ?thesis
    by (simp add: execute_no_action)
next
  fix n vm1 ok vm2
  assume "G1UseTimeBasedHeapSizing (globals m)"
    and "evaluate_heap_resize c (heap_sizing_policy (task m)) False (globals m) = (n, True, vm1)"
    and "0 < n"
    and "expand c (g1h (task m)) n (workers c (g1h (task m)) vm1) vm1 = (ok, vm2)"
  then show ?thesis
    by (simp add: execute_grow)
next
  fix n vm1
  assume "G1UseTimeBasedHeapSizing (globals m)"
    and "evaluate_heap_resize c (heap_sizing_policy (task m)) False (globals m) = (n, False, vm1)"
    and "0 < n"
  then show ?thesis
    by (simp add: execute_shrink)
qed

theorem resource_area_released_on_every_path_witness:
  "resource_area (globals (execute (fake_collaborators 1048576 (\<lambda>b. True) False)
                             (fake_machine True 60000))) = 0 \<and>
   resource_area (globals (execute (fake_collaborators 1048576 (\<lambda>b. True) True)
                             (fake_machine True 60000))) = 0 \<and>
   resource_area (globals (execute (fake_collaborators 1048576 (\<lambda>b. True) True)
                             (fake_machine False 60000))) = 0"
  using resource_area_released_on_every_path
          [of "fake_collaborators 1048576 (\<lambda>b. True) False" "fake_machine True 60000"]
        resource_area_released_on_every_path
          [of "fake_collaborators 1048576 (\<lambda>b. True) True" "fake_machine True 60000"]
        resource_area_released_on_every_path
          [of "fake_collaborators 1048576 (\<lambda>b. True) True" "fake_machine False 60000"]
  by (simp add: fake_machine_def)

end
